theory Spec2Isabelle
  imports Complex_Main
begin

section \<open>Python values\<close>

text \<open>
  The prediction server (\<^verbatim>\<open>ai_model_server/app.py\<close>) receives a JSON document, which
  Flask's \<^verbatim>\<open>request.get_json()\<close> hands over as a Python value: \<^verbatim>\<open>None\<close>, a bool, an int,
  a float, a str, a list or a dict with str keys (here the list of its items, each key
  once). An int is unbounded. A float is an IEEE
  double; the server only ever compares one with the integers 0 and 1 and tests it for
  zero, so a float is represented by its exact value: a finite double is a rational
  number, with the negative zero, the two infinities and NaN kept apart (the JSON parser
  of Python reads \<^verbatim>\<open>-0.0\<close>, \<^verbatim>\<open>Infinity\<close>, \<^verbatim>\<open>-Infinity\<close> and \<^verbatim>\<open>NaN\<close>).
\<close>

datatype pyfloat = Finite rat | NegZero | PosInf | NegInf | NaN

datatype json =
    JNull
  | JBool bool
  | JInt int
  | JFloat pyfloat
  | JStr string
  | JList "json list"
  | JObj "(string \<times> json) list"

text \<open>The numeric value of a float, where it has one.\<close>

fun float_val :: "pyfloat \<Rightarrow> rat option" where
  "float_val (Finite q) = Some q"
| "float_val NegZero = Some 0"
| "float_val PosInf = None"
| "float_val NegInf = None"
| "float_val NaN = None"

text \<open>
  An exception is an instance of Python's \<^verbatim>\<open>Exception\<close>, represented by \<^verbatim>\<open>str(e)\<close>, the
  only part of it the handlers read. The wording of the interpreter's own messages is
  CPython's and differs between versions; the theorems about all requests do not depend
  on it, and an evaluation at a concrete request shows the message of that request.
\<close>

datatype exn = Exn string

fun str_exn :: "exn \<Rightarrow> string" where
  "str_exn (Exn msg) = msg"

text \<open>A name between apostrophes, as the interpreter's messages write it.\<close>

definition quoted :: "string \<Rightarrow> string" where
  "quoted name = [CHR 0x27] @ name @ [CHR 0x27]"

text \<open>\<^verbatim>\<open>bool(v)\<close>, the truth value that \<^verbatim>\<open>not data\<close> negates.\<close>

fun truthy :: "json \<Rightarrow> bool" where
  "truthy JNull = False"
| "truthy (JBool b) = b"
| "truthy (JInt n) = (n \<noteq> 0)"
| "truthy (JFloat f) = (float_val f \<noteq> Some 0)"
| "truthy (JStr s) = (s \<noteq> [])"
| "truthy (JList xs) = (xs \<noteq> [])"
| "truthy (JObj kvs) = (kvs \<noteq> [])"

text \<open>
  \<^verbatim>\<open>v == k\<close> for an int \<^verbatim>\<open>k\<close>: numeric equality. \<^verbatim>\<open>True\<close> and \<^verbatim>\<open>False\<close> are the
  integers 1 and 0, a float is compared by its exact value (NaN and the infinities equal
  no integer), and a value of any other type equals no integer.
\<close>

fun py_eq_int :: "json \<Rightarrow> int \<Rightarrow> bool" where
  "py_eq_int (JBool b) k = ((if b then 1 else 0) = k)"
| "py_eq_int (JInt n) k = (n = k)"
| "py_eq_int (JFloat f) k = (float_val f = Some (of_int k))"
| "py_eq_int JNull k = False"
| "py_eq_int (JStr s) k = False"
| "py_eq_int (JList xs) k = False"
| "py_eq_int (JObj kvs) k = False"

text \<open>\<^verbatim>\<open>f in [0, 1]\<close>: the list is searched from the left with \<^verbatim>\<open>==\<close>.\<close>

definition in_0_1 :: "json \<Rightarrow> bool" where
  "in_0_1 f = (py_eq_int f 0 \<or> py_eq_int f 1)"

text \<open>\<^verbatim>\<open>k in s\<close> for two strings: \<^verbatim>\<open>k\<close> occurs in \<^verbatim>\<open>s\<close> as a contiguous piece.\<close>

fun is_substring :: "string \<Rightarrow> string \<Rightarrow> bool" where
  "is_substring k [] = (k = [])"
| "is_substring k (c # s) = (take (length k) (c # s) = k \<or> is_substring k s)"

text \<open>
  \<^verbatim>\<open>k in data\<close> for a str \<^verbatim>\<open>k\<close>: a key of a dict, an element of a list, a piece of a
  string; any other value is not iterable and the test raises TypeError.
\<close>

fun py_contains :: "json \<Rightarrow> string \<Rightarrow> exn + bool" where
  "py_contains (JObj kvs) k = Inr (k \<in> set (map fst kvs))"
| "py_contains (JList xs) k = Inr (JStr k \<in> set xs)"
| "py_contains (JStr s) k = Inr (is_substring k s)"
| "py_contains JNull k = Inl (Exn ''argument of type 'NoneType' is not iterable'')"
| "py_contains (JBool b) k = Inl (Exn ''argument of type 'bool' is not iterable'')"
| "py_contains (JInt n) k = Inl (Exn ''argument of type 'int' is not iterable'')"
| "py_contains (JFloat f) k = Inl (Exn ''argument of type 'float' is not iterable'')"

text \<open>
  \<^verbatim>\<open>data[k]\<close> for a str \<^verbatim>\<open>k\<close>: the value of the key in a dict (KeyError without it);
  a list and a string take integer indices only, the other values take none.
\<close>

fun py_getitem :: "json \<Rightarrow> string \<Rightarrow> exn + json" where
  "py_getitem (JObj kvs) k =
     (case map_of kvs k of
        None \<Rightarrow> Inl (Exn (quoted k))
      | Some v \<Rightarrow> Inr v)"
| "py_getitem (JList xs) k = Inl (Exn ''list indices must be integers or slices, not str'')"
| "py_getitem (JStr s) k = Inl (Exn ''string indices must be integers'')"
| "py_getitem JNull k = Inl (Exn (quoted ''NoneType'' @ '' object is not subscriptable''))"
| "py_getitem (JBool b) k = Inl (Exn (quoted ''bool'' @ '' object is not subscriptable''))"
| "py_getitem (JInt n) k = Inl (Exn (quoted ''int'' @ '' object is not subscriptable''))"
| "py_getitem (JFloat f) k = Inl (Exn (quoted ''float'' @ '' object is not subscriptable''))"

section \<open>The state of the server process\<close>

text \<open>
  The global \<^verbatim>\<open>model\<close> is \<^verbatim>\<open>None\<close> or the object that \<^verbatim>\<open>pickle.load\<close> returned. The
  server uses that object in one expression only,
  \<^verbatim>\<open>int(model.predict(np.array(features).reshape(1, -1))[0])\<close>, so an object is
  represented by what this expression does on a list of features: it raises, or it yields
  a Python int. (An object without a \<^verbatim>\<open>predict\<close> method raises on every list.)

  The field \<open>calls\<close> records the lists of features on which the object has been invoked, in
  order: the effect of a request outside the process's own variables.
\<close>

datatype pyobj = is_None: PyNone | Object "json list \<Rightarrow> exn + int"

record state =
  model :: pyobj
  calls :: "json list list"

text \<open>\<^verbatim>\<open>model = None\<close>, the module-level initialisation.\<close>

definition initial :: state where
  "initial = \<lparr>model = PyNone, calls = []\<rparr>"

text \<open>
  What \<^verbatim>\<open>load_model\<close> finds on disk: whether \<^verbatim>\<open>os.path.exists("model.pkl")\<close> holds, and
  what opening the file and \<^verbatim>\<open>pickle.load\<close> do then (they raise, or yield an object).
\<close>

record environment =
  file_exists :: bool
  unpickle :: "exn + pyobj"

text \<open>
  The body of the \<^verbatim>\<open>try\<close> block of \<^verbatim>\<open>load_model\<close>; the assignment to the global happens
  only when \<^verbatim>\<open>pickle.load\<close> has returned. Closing the file at the end of the \<^verbatim>\<open>with\<close>
  block is taken to succeed, and console output is not modelled.
\<close>

definition load_model_body :: "environment \<Rightarrow> state \<Rightarrow> (exn + bool) \<times> state" where
  "load_model_body env s =
     (if \<not> file_exists env then (Inr False, s)
      else case unpickle env of
        Inl e \<Rightarrow> (Inl e, s)
      | Inr obj \<Rightarrow> (Inr True, s\<lparr>model := obj\<rparr>))"

text \<open>\<^verbatim>\<open>load_model\<close>: the body, with \<^verbatim>\<open>except Exception: return False\<close> around it.\<close>

definition load_model :: "environment \<Rightarrow> state \<Rightarrow> (exn + bool) \<times> state" where
  "load_model env s =
     (case load_model_body env s of
        (Inl e, s') \<Rightarrow> (Inr False, s')
      | (Inr b, s') \<Rightarrow> (Inr b, s'))"

text \<open>\<^verbatim>\<open>make_prediction\<close>.\<close>

definition make_prediction :: "json list \<Rightarrow> state \<Rightarrow> (exn + int) \<times> state" where
  "make_prediction features s =
     (case model s of
        PyNone \<Rightarrow> (Inl (Exn ''Model not loaded''), s)
      | Object run \<Rightarrow> (run features, s\<lparr>calls := calls s @ [features]\<rparr>))"

section \<open>The endpoints\<close>

text \<open>
  A response is the JSON body given to \<^verbatim>\<open>jsonify\<close> and the HTTP status: the one written
  after the body, or 200 where the view returns the body alone.
\<close>

type_synonym response = "json \<times> nat"

definition error_body :: "string \<Rightarrow> string \<Rightarrow> json" where
  "error_body err msg = JObj [(''error'', JStr err), (''message'', JStr msg)]"

text \<open>\<^verbatim>\<open>health_check\<close>, the view of \<^verbatim>\<open>GET /health\<close>.\<close>

definition health_check :: "state \<Rightarrow> response \<times> state" where
  "health_check s =
     ((JObj [(''status'', JStr ''healthy''),
             (''message'', JStr ''AI Model Server is running''),
             (''model_loaded'', JBool (\<not> is_None (model s)))], 200), s)"

text \<open>The dict \<^verbatim>\<open>response\<close> that \<^verbatim>\<open>predict\<close> builds from the prediction and the features.\<close>

definition success_body :: "int \<Rightarrow> json list \<Rightarrow> json" where
  "success_body prediction features =
     JObj [(''prediction'', JInt prediction),
           (''suitable_for_training'', JBool (prediction = 1)),
           (''confidence'', JStr ''high''),
           (''input_features'',
              JObj [(''outlook_rainy'', features ! 0),
                    (''outlook_sunny'', features ! 1),
                    (''temperature_hot'', features ! 2),
                    (''temperature_mild'', features ! 3),
                    (''humidity_normal'', features ! 4)]),
           (''message'',
              JStr (if prediction = 1 then ''Suitable for exercise''
                    else ''Not suitable for exercise''))]"

text \<open>
  The body of the \<^verbatim>\<open>try\<close> block of \<^verbatim>\<open>predict\<close>, the view of \<^verbatim>\<open>POST /predict\<close>. Its first
  argument is what \<^verbatim>\<open>request.get_json()\<close> does on the request: it raises (Flask does on a
  body that is not JSON) or yields the parsed value, \<^verbatim>\<open>None\<close> included. The checks are in
  the order of the source, and each \<^verbatim>\<open>return\<close> is a branch; \<^verbatim>\<open>features[0]\<close> to
  \<^verbatim>\<open>features[4]\<close> are read only from a list of length 5.
\<close>

definition predict_body :: "exn + json \<Rightarrow> state \<Rightarrow> (exn + response) \<times> state" where
  "predict_body get_json s =
     (if is_None (model s) then
        (Inr (error_body ''Model not loaded''
                ''Please ensure model.pkl file is available'', 500), s)
      else (case get_json of
        Inl e \<Rightarrow> (Inl e, s)
      | Inr data \<Rightarrow>
         (if \<not> truthy data then
            (Inr (error_body ''Invalid request''
                    ''Request must contain \"features\" array'', 400), s)
          else (case py_contains data ''features'' of
            Inl e \<Rightarrow> (Inl e, s)
          | Inr has \<Rightarrow>
             (if \<not> has then
                (Inr (error_body ''Invalid request''
                        ''Request must contain \"features\" array'', 400), s)
              else (case py_getitem data ''features'' of
                Inl e \<Rightarrow> (Inl e, s)
              | Inr (JList features) \<Rightarrow>
                 (if length features \<noteq> 5 then
                    (Inr (error_body ''Invalid features''
                            ''Features must be an array of exactly 5 values'', 400), s)
                  else if \<not> list_all in_0_1 features then
                    (Inr (error_body ''Invalid feature values''
                            ''All features must be binary (0 or 1)'', 400), s)
                  else (case make_prediction features s of
                      (Inl e, s') \<Rightarrow> (Inl e, s')
                    | (Inr prediction, s') \<Rightarrow>
                        (Inr (success_body prediction features, 200), s')))
              | Inr _ \<Rightarrow>
                  (Inr (error_body ''Invalid features''
                          ''Features must be an array of exactly 5 values'', 400), s)))))))"

text \<open>
  \<^verbatim>\<open>predict\<close>: the body, with the handler \<^verbatim>\<open>except Exception as e\<close> around it. The result
  type still has a place for an exception that leaves the view.
\<close>

definition predict :: "exn + json \<Rightarrow> state \<Rightarrow> (exn + response) \<times> state" where
  "predict get_json s =
     (case predict_body get_json s of
        (Inl e, s') \<Rightarrow> (Inr (error_body ''Prediction failed'' (str_exn e), 500), s')
      | (Inr r, s') \<Rightarrow> (Inr r, s'))"

section \<open>The process from start to end\<close>

text \<open>
  The \<^verbatim>\<open>__main__\<close> block calls \<^verbatim>\<open>load_model()\<close> once, whatever it returns, and then serves
  requests. A request reaches one of the two views; only the state it leaves matters
  here. No view is left by an exception that would reach Flask's own handlers: \<open>predict\<close>
  returns a response in every case (proved below), and \<open>health_check\<close> has no raise point.
\<close>

datatype call = Health | Predict "exn + json"

fun handle :: "call \<Rightarrow> state \<Rightarrow> state" where
  "handle Health s = snd (health_check s)"
| "handle (Predict get_json) s = snd (predict get_json s)"

fun serve :: "call list \<Rightarrow> state \<Rightarrow> state" where
  "serve [] s = s"
| "serve (c # cs) s = serve cs (handle c s)"

definition main :: "environment \<Rightarrow> call list \<Rightarrow> state" where
  "main env cs = serve cs (snd (load_model env initial))"

section \<open>Concrete inputs\<close>

text \<open>
  Inputs for the concrete evaluations below. The payload is the one of the docstring of
  \<^verbatim>\<open>predict\<close> (sunny, mild, normal humidity). \<open>sunny_classifier\<close> stands for a loaded
  classifier: label 1 exactly when the second feature (outlook is sunny) is 1.
  \<open>no_predict\<close> stands for an unpickled object that is no classifier: the call of its
  \<^verbatim>\<open>predict\<close> raises.
\<close>

definition sunny_mild :: "json list" where
  "sunny_mild = [JInt 0, JInt 1, JInt 0, JInt 1, JInt 1]"

definition payload :: "json list \<Rightarrow> json" where
  "payload fs = JObj [(''features'', JList fs)]"

fun sunny_classifier :: "json list \<Rightarrow> exn + int" where
  "sunny_classifier fs = Inr (if py_eq_int (fs ! 1) 1 then 1 else 0)"

fun no_predict :: "json list \<Rightarrow> exn + int" where
  "no_predict fs = Inl (Exn ''object has no attribute predict'')"

definition ready :: state where
  "ready = \<lparr>model = Object sunny_classifier, calls = []\<rparr>"

definition unusable :: state where
  "unusable = \<lparr>model = Object no_predict, calls = []\<rparr>"

text \<open>
  Five artifacts: no file, a file that \<^verbatim>\<open>pickle.load\<close> rejects, the pickled classifier,
  a pickle of \<^verbatim>\<open>None\<close>, and a pickle of an object that is no classifier.
\<close>

definition missing_file :: environment where
  "missing_file = \<lparr>file_exists = False, unpickle = Inl (Exn ''No such file or directory'')\<rparr>"

definition corrupt_file :: environment where
  "corrupt_file = \<lparr>file_exists = True, unpickle = Inl (Exn ''invalid load key'')\<rparr>"

definition good_file :: environment where
  "good_file = \<lparr>file_exists = True, unpickle = Inr (Object sunny_classifier)\<rparr>"

definition none_file :: environment where
  "none_file = \<lparr>file_exists = True, unpickle = Inr PyNone\<rparr>"

definition not_a_model :: environment where
  "not_a_model = \<lparr>file_exists = True, unpickle = Inr (Object no_predict)\<rparr>"

section \<open>Steps of the validation\<close>

lemma features_key_present:
  assumes "map_of kvs k = Some v"
  shows "truthy (JObj kvs)" and "py_contains (JObj kvs) k = Inr True"
    and "py_getitem (JObj kvs) k = Inr v"
proof -
  from assms have "k \<in> fst ` set kvs"
    by (metis domI dom_map_of_conv_image_fst)
  then show "py_contains (JObj kvs) k = Inr True" by simp
  from assms show "truthy (JObj kvs)" by (cases kvs) simp_all
  from assms show "py_getitem (JObj kvs) k = Inr v" by simp
qed

text \<open>With a model loaded and a \<open>features\<close> key in a dict, the checks on its value decide.\<close>

lemma predict_body_features:
  assumes "model s \<noteq> PyNone" and "map_of kvs ''features'' = Some v"
  shows "predict_body (Inr (JObj kvs)) s =
     (case v of
        JList features \<Rightarrow>
          (if length features \<noteq> 5 then
             (Inr (error_body ''Invalid features''
                     ''Features must be an array of exactly 5 values'', 400), s)
           else if \<not> list_all in_0_1 features then
             (Inr (error_body ''Invalid feature values''
                     ''All features must be binary (0 or 1)'', 400), s)
           else (case make_prediction features s of
               (Inl e, s') \<Rightarrow> (Inl e, s')
             | (Inr prediction, s') \<Rightarrow> (Inr (success_body prediction features, 200), s')))
      | _ \<Rightarrow> (Inr (error_body ''Invalid features''
                     ''Features must be an array of exactly 5 values'', 400), s))"
proof -
  from assms(1) have "\<not> is_None (model s)" by (cases "model s") simp_all
  then show ?thesis
    unfolding predict_body_def
    using features_key_present [OF assms(2)]
    by (simp split: json.splits)
qed

lemma make_prediction_loaded:
  "model s = Object run \<Longrightarrow>
     make_prediction fs s = (run fs, s\<lparr>calls := calls s @ [fs]\<rparr>)"
  by (simp add: make_prediction_def)

section \<open>Health check\<close>

text \<open>
  C8: \<open>health_check\<close> has no failure path. In every state it answers with status 200, the
  fixed status string "healthy", and \<open>model_loaded\<close> true exactly when the model is not
  \<^verbatim>\<open>None\<close>; the state is returned as it was.
\<close>

theorem health_check_reports_readiness:
  "health_check s =
     ((JObj [(''status'', JStr ''healthy''),
             (''message'', JStr ''AI Model Server is running''),
             (''model_loaded'', JBool (model s \<noteq> PyNone))], 200), s)"
  by (cases "model s") (simp_all add: health_check_def)

theorem health_check_reports_readiness_witness:
  "health_check initial =
     ((JObj [(''status'', JStr ''healthy''),
             (''message'', JStr ''AI Model Server is running''),
             (''model_loaded'', JBool False)], 200), initial)"
  using health_check_reports_readiness [of initial] by (simp add: initial_def)

section \<open>Prediction: no model loaded\<close>

text \<open>
  C2: while no model is loaded (the global is \<^verbatim>\<open>None\<close>), \<open>predict\<close> answers every request
  with the error "Model not loaded" and status 500, whatever \<^verbatim>\<open>get_json\<close> would do with
  the request: the payload is not even read, so no validation error can be returned, and
  the state is left as it was.
\<close>

theorem predict_model_not_loaded:
  assumes "model s = PyNone"
  shows "predict get_json s =
     (Inr (error_body ''Model not loaded''
             ''Please ensure model.pkl file is available'', 500), s)"
  using assms by (simp add: predict_def predict_body_def)

theorem predict_model_not_loaded_witness:
  "predict (Inr (payload sunny_mild)) initial =
     (Inr (error_body ''Model not loaded''
             ''Please ensure model.pkl file is available'', 500), initial)
   \<and> predict (Inr (payload [JInt 0, JInt 1, JInt 0])) initial =
     (Inr (error_body ''Model not loaded''
             ''Please ensure model.pkl file is available'', 500), initial)
   \<and> predict (Inr (JObj [])) initial =
     (Inr (error_body ''Model not loaded''
             ''Please ensure model.pkl file is available'', 500), initial)
   \<and> predict (Inr (payload [JInt 2, JInt 1, JInt 0, JInt 1, JInt 1])) initial =
     (Inr (error_body ''Model not loaded''
             ''Please ensure model.pkl file is available'', 500), initial)"
proof -
  have none: "model initial = PyNone" by (simp add: initial_def)
  show ?thesis
    using predict_model_not_loaded [OF none] by simp
qed

section \<open>Prediction: validation of the features\<close>

text \<open>
  C4: with a model loaded, a payload whose \<open>features\<close> value is anything but a list of
  exactly 5 elements (a list of any other length, or no list at all) is answered with
  the error "Invalid features" and status 400. The state is returned as it was: the
  model has not been invoked.
\<close>

theorem predict_wrong_arity:
  assumes "model s \<noteq> PyNone"
    and "map_of kvs ''features'' = Some v"
    and "\<forall>fs. v = JList fs \<longrightarrow> length fs \<noteq> 5"
  shows "predict (Inr (JObj kvs)) s =
     (Inr (error_body ''Invalid features''
             ''Features must be an array of exactly 5 values'', 400), s)"
  using assms(3)
  by (cases v) (simp_all add: predict_def predict_body_features [OF assms(1,2)])

theorem predict_wrong_arity_witness:
  "predict (Inr (payload [JInt 0, JInt 1, JInt 0])) ready =
     (Inr (error_body ''Invalid features''
             ''Features must be an array of exactly 5 values'', 400), ready)
   \<and> calls ready = []"
proof -
  have loaded: "model ready \<noteq> PyNone" by (simp add: ready_def)
  have key: "map_of [(''features'', JList [JInt 0, JInt 1, JInt 0])] ''features'' =
      Some (JList [JInt 0, JInt 1, JInt 0])"
    by simp
  have len: "\<forall>fs. JList [JInt 0, JInt 1, JInt 0] = JList fs \<longrightarrow> length fs \<noteq> 5"
    by auto
  show ?thesis
    using predict_wrong_arity [OF loaded key len]
    by (simp add: payload_def ready_def)
qed

text \<open>
  C3: with a model loaded, a list of 5 features of which at least one equals neither 0
  nor 1 is answered with the error "Invalid feature values" and status 400, the state
  unchanged (no invocation of the model). Equality is numeric: an int passes exactly when
  it is 0 or 1, a finite float exactly when its value is 0 or 1 (so 0.0 and 1.0 pass and
  0.5 does not), and a string never passes, not even "1".
\<close>

theorem predict_out_of_domain:
  "(model s \<noteq> PyNone \<and> map_of kvs ''features'' = Some (JList fs) \<and> length fs = 5
      \<and> (\<exists>f \<in> set fs. \<not> in_0_1 f) \<longrightarrow>
    predict (Inr (JObj kvs)) s =
      (Inr (error_body ''Invalid feature values''
              ''All features must be binary (0 or 1)'', 400), s))
   \<and> in_0_1 (JInt n) = (n = 0 \<or> n = 1)
   \<and> in_0_1 (JFloat (Finite q)) = (q = 0 \<or> q = 1)
   \<and> \<not> in_0_1 (JFloat (Finite (1 / 2)))
   \<and> \<not> in_0_1 (JInt 2) \<and> \<not> in_0_1 (JInt (- 1))
   \<and> \<not> in_0_1 (JStr str)"
proof -
  have "predict (Inr (JObj kvs)) s =
      (Inr (error_body ''Invalid feature values''
              ''All features must be binary (0 or 1)'', 400), s)"
    if loaded: "model s \<noteq> PyNone" and key: "map_of kvs ''features'' = Some (JList fs)"
      and len: "length fs = 5" and bad: "\<exists>f \<in> set fs. \<not> in_0_1 f"
  proof -
    from bad have "\<not> list_all in_0_1 fs" by (auto simp: list_all_iff)
    with len show ?thesis
      by (simp add: predict_def predict_body_features [OF loaded key])
  qed
  moreover have "in_0_1 (JInt n) = (n = 0 \<or> n = 1)" by (simp add: in_0_1_def)
  moreover have "in_0_1 (JFloat (Finite q)) = (q = 0 \<or> q = 1)" by (simp add: in_0_1_def)
  moreover have "\<not> in_0_1 (JFloat (Finite (1 / 2)))" by (simp add: in_0_1_def)
  moreover have "\<not> in_0_1 (JInt 2) \<and> \<not> in_0_1 (JInt (- 1))" by (simp add: in_0_1_def)
  moreover have "\<not> in_0_1 (JStr str)" by (simp add: in_0_1_def)
  ultimately show ?thesis by blast
qed

theorem predict_out_of_domain_witness:
  "predict (Inr (payload [JInt 0, JInt 1, JFloat (Finite (1 / 2)), JInt 1, JInt 1])) ready =
     (Inr (error_body ''Invalid feature values''
             ''All features must be binary (0 or 1)'', 400), ready)
   \<and> in_0_1 (JFloat (Finite 0)) \<and> in_0_1 (JFloat (Finite 1))"
proof -
  let ?fs = "[JInt 0, JInt 1, JFloat (Finite (1 / 2)), JInt 1, JInt 1]"
  have hyp: "model ready \<noteq> PyNone \<and> map_of [(''features'', JList ?fs)] ''features'' = Some (JList ?fs)
      \<and> length ?fs = 5 \<and> (\<exists>f \<in> set ?fs. \<not> in_0_1 f)"
    by (simp add: ready_def in_0_1_def)
  show ?thesis
    using hyp predict_out_of_domain
      [of ready "[(''features'', JList ?fs)]" ?fs 0 0 "''1''"]
      predict_out_of_domain [of ready "[]" "[]" 0 1 "''1''"]
    by (simp add: payload_def)
qed

section \<open>Prediction: the success response\<close>

text \<open>
  C1: with a model loaded, a payload whose \<open>features\<close> value is a list of exactly 5
  elements, each equal to 0 or 1, is passed to the model; when the model yields a label
  (for a classifier of this application: 0 or 1), the answer has status 200 and its body
  holds that label as \<open>prediction\<close>, \<open>suitable_for_training\<close> true exactly when the label
  is 1, the fixed \<open>confidence\<close> "high", the 5 input values under their names in order,
  and the message "Suitable for exercise" for label 1, "Not suitable for exercise"
  otherwise. The model has been invoked once, on that list.
\<close>

theorem predict_success:
  assumes "model s = Object run"
    and "map_of kvs ''features'' = Some (JList fs)"
    and "length fs = 5" and "list_all in_0_1 fs"
    and "run fs = Inr label" and "label = 0 \<or> label = 1"
  shows "predict (Inr (JObj kvs)) s =
     (Inr (JObj [(''prediction'', JInt label),
                 (''suitable_for_training'', JBool (label = 1)),
                 (''confidence'', JStr ''high''),
                 (''input_features'',
                    JObj [(''outlook_rainy'', fs ! 0),
                          (''outlook_sunny'', fs ! 1),
                          (''temperature_hot'', fs ! 2),
                          (''temperature_mild'', fs ! 3),
                          (''humidity_normal'', fs ! 4)]),
                 (''message'',
                    JStr (if label = 1 then ''Suitable for exercise''
                          else ''Not suitable for exercise''))], 200),
      s\<lparr>calls := calls s @ [fs]\<rparr>)
    \<and> JInt label \<in> {JInt 0, JInt 1}"
proof -
  from assms(1) have loaded: "model s \<noteq> PyNone" by simp
  from assms(3,4,5) have "predict (Inr (JObj kvs)) s =
      (Inr (success_body label fs, 200), s\<lparr>calls := calls s @ [fs]\<rparr>)"
    by (simp add: predict_def predict_body_features [OF loaded assms(2)]
        make_prediction_loaded [OF assms(1)])
  with assms(6) show ?thesis by (auto simp: success_body_def)
qed

theorem predict_success_witness:
  "predict (Inr (payload sunny_mild)) ready =
     (Inr (JObj [(''prediction'', JInt 1),
                 (''suitable_for_training'', JBool True),
                 (''confidence'', JStr ''high''),
                 (''input_features'',
                    JObj [(''outlook_rainy'', JInt 0),
                          (''outlook_sunny'', JInt 1),
                          (''temperature_hot'', JInt 0),
                          (''temperature_mild'', JInt 1),
                          (''humidity_normal'', JInt 1)]),
                 (''message'', JStr ''Suitable for exercise'')], 200),
      ready\<lparr>calls := [sunny_mild]\<rparr>)"
proof -
  have m: "model ready = Object sunny_classifier" by (simp add: ready_def)
  have key: "map_of [(''features'', JList sunny_mild)] ''features'' = Some (JList sunny_mild)"
    by simp
  have len: "length sunny_mild = 5" by (simp add: sunny_mild_def)
  have dom: "list_all in_0_1 sunny_mild" by (simp add: sunny_mild_def in_0_1_def)
  have lab: "sunny_classifier sunny_mild = Inr 1" by (simp add: sunny_mild_def)
  have bin: "(1::int) = 0 \<or> (1::int) = 1" by simp
  show ?thesis
    using predict_success [OF m key len dom lab bin]
    by (simp add: payload_def sunny_mild_def ready_def)
qed

text \<open>
  C10: a list of 5 Python booleans passes the domain check, since \<^verbatim>\<open>True == 1\<close> and
  \<^verbatim>\<open>False == 0\<close>. The model is invoked on the list of booleans as it came, and when it
  yields a label the success response carries the booleans themselves (not 0 and 1)
  under \<open>input_features\<close>.
\<close>

theorem predict_accepts_booleans:
  assumes "model s = Object run"
    and "map_of kvs ''features'' = Some (JList (map JBool bs))"
    and "length bs = 5"
    and "run (map JBool bs) = Inr label"
  shows "list_all in_0_1 (map JBool bs)
    \<and> predict (Inr (JObj kvs)) s =
     (Inr (JObj [(''prediction'', JInt label),
                 (''suitable_for_training'', JBool (label = 1)),
                 (''confidence'', JStr ''high''),
                 (''input_features'',
                    JObj [(''outlook_rainy'', JBool (bs ! 0)),
                          (''outlook_sunny'', JBool (bs ! 1)),
                          (''temperature_hot'', JBool (bs ! 2)),
                          (''temperature_mild'', JBool (bs ! 3)),
                          (''humidity_normal'', JBool (bs ! 4))]),
                 (''message'',
                    JStr (if label = 1 then ''Suitable for exercise''
                          else ''Not suitable for exercise''))], 200),
      s\<lparr>calls := calls s @ [map JBool bs]\<rparr>)"
proof -
  from assms(1) have loaded: "model s \<noteq> PyNone" by simp
  have dom: "list_all in_0_1 (map JBool bs)"
    by (induction bs) (simp_all add: in_0_1_def)
  with assms(3,4) have "predict (Inr (JObj kvs)) s =
      (Inr (success_body label (map JBool bs), 200), s\<lparr>calls := calls s @ [map JBool bs]\<rparr>)"
    by (simp add: predict_def predict_body_features [OF loaded assms(2)]
        make_prediction_loaded [OF assms(1)])
  with dom assms(3) show ?thesis by (simp add: success_body_def)
qed

theorem predict_accepts_booleans_witness:
  "predict (Inr (payload [JBool False, JBool True, JBool False, JBool True, JBool True])) ready =
     (Inr (JObj [(''prediction'', JInt 1),
                 (''suitable_for_training'', JBool True),
                 (''confidence'', JStr ''high''),
                 (''input_features'',
                    JObj [(''outlook_rainy'', JBool False),
                          (''outlook_sunny'', JBool True),
                          (''temperature_hot'', JBool False),
                          (''temperature_mild'', JBool True),
                          (''humidity_normal'', JBool True)]),
                 (''message'', JStr ''Suitable for exercise'')], 200),
      ready\<lparr>calls := [[JBool False, JBool True, JBool False, JBool True, JBool True]]\<rparr>)"
proof -
  let ?bs = "[False, True, False, True, True]"
  have m: "model ready = Object sunny_classifier" by (simp add: ready_def)
  have key: "map_of [(''features'', JList (map JBool ?bs))] ''features'' =
      Some (JList (map JBool ?bs))"
    by simp
  have len: "length ?bs = 5" by simp
  have lab: "sunny_classifier (map JBool ?bs) = Inr 1" by simp
  show ?thesis
    using predict_accepts_booleans [OF m key len lab]
    by (simp add: payload_def ready_def)
qed

section \<open>Prediction: a payload without the features key\<close>

text \<open>
  With a model loaded, the payloads answered with the error "Invalid request" and status
  400 are exactly those on which the guard \<^verbatim>\<open>not data or 'features' not in data\<close> holds:
  a false value (\<^verbatim>\<open>None\<close>, an empty object, list or string, zero, \<^verbatim>\<open>false\<close>), an object
  without the key, a list without the element "features", a string without that piece.
\<close>

lemma predict_invalid_request:
  assumes "model s \<noteq> PyNone"
  shows "(predict (Inr data) s =
            (Inr (error_body ''Invalid request''
                    ''Request must contain \"features\" array'', 400), s))
         = (\<not> truthy data \<or> py_contains data ''features'' = Inr False)"
proof -
  from assms have loaded: "\<not> is_None (model s)" by (cases "model s") simp_all
  show ?thesis
  proof (cases "truthy data")
    case False
    with loaded show ?thesis by (simp add: predict_def predict_body_def)
  next
    case True
    show ?thesis
    proof (cases "py_contains data ''features''")
      case (Inl e)
      with True loaded show ?thesis
        by (simp add: predict_def predict_body_def error_body_def)
    next
      case (Inr has)
      show ?thesis
      proof (cases has)
        case False
        with Inr True loaded show ?thesis by (simp add: predict_def predict_body_def)
      next
        case has: True
        with Inr True loaded show ?thesis
          by (auto simp: predict_def predict_body_def error_body_def success_body_def
              split: sum.splits json.splits prod.splits)
      qed
    qed
  qed
qed

text \<open>
  C5 says that, with a model loaded, every payload without a \<open>features\<close> key, an absent
  or empty body included, is answered with the 400 error for the missing field. The code
  does not do so on these requests, all without a \<open>features\<close> key:
  the JSON number 5, on which the membership test \<^verbatim>\<open>'features' not in data\<close> raises
  TypeError; the JSON array \<^verbatim>\<open>["features"]\<close>, which passes the membership test and
  fails at \<^verbatim>\<open>data['features']\<close>; and a request on which
  \<^verbatim>\<open>get_json\<close> itself raises. Each ends in the handler of \<open>predict\<close> and is answered with
  "Prediction failed", the text of the exception and status 500.
\<close>

theorem predict_without_features_key_answered_500:
  "predict (Inr (JInt 5)) ready =
     (Inr (error_body ''Prediction failed'' ''argument of type 'int' is not iterable'', 500),
      ready)
   \<and> fst (predict (Inr (JInt 5)) ready) \<noteq>
     Inr (error_body ''Invalid request'' ''Request must contain \"features\" array'', 400)
   \<and> predict (Inr (JList [JStr ''features''])) ready =
     (Inr (error_body ''Prediction failed''
            ''list indices must be integers or slices, not str'', 500), ready)
   \<and> predict (Inl (Exn ''400 Bad Request'')) ready =
     (Inr (error_body ''Prediction failed'' ''400 Bad Request'', 500), ready)"
  by (simp add: predict_def predict_body_def ready_def error_body_def)

section \<open>Prediction: exceptions stay inside\<close>

text \<open>
  C6: \<open>predict\<close> returns a response for every request and in every state; no exception
  leaves it. Whatever exception the body of its \<^verbatim>\<open>try\<close> block raises is answered with the
  error "Prediction failed", the description of the exception as the message, and status
  500. In particular this is the answer when \<^verbatim>\<open>get_json\<close> raises, and when the loaded
  object raises on a valid list of features.
\<close>

theorem predict_never_raises:
  "(\<exists>r s'. predict get_json s = (Inr r, s'))
   \<and> (\<forall>e s'. predict_body get_json s = (Inl e, s') \<longrightarrow>
        predict get_json s = (Inr (error_body ''Prediction failed'' (str_exn e), 500), s'))
   \<and> (model s \<noteq> PyNone \<longrightarrow>
        predict (Inl e) s = (Inr (error_body ''Prediction failed'' (str_exn e), 500), s))
   \<and> (model s = Object run \<and> map_of kvs ''features'' = Some (JList fs) \<and> length fs = 5
        \<and> list_all in_0_1 fs \<and> run fs = Inl e \<longrightarrow>
        predict (Inr (JObj kvs)) s =
          (Inr (error_body ''Prediction failed'' (str_exn e), 500),
           s\<lparr>calls := calls s @ [fs]\<rparr>))"
proof -
  have total: "\<exists>r s'. predict get_json s = (Inr r, s')"
    by (cases "predict_body get_json s"; cases "fst (predict_body get_json s)")
      (auto simp: predict_def)
  have caught: "\<forall>e s'. predict_body get_json s = (Inl e, s') \<longrightarrow>
      predict get_json s = (Inr (error_body ''Prediction failed'' (str_exn e), 500), s')"
    by (simp add: predict_def)
  have request: "predict (Inl e) s =
      (Inr (error_body ''Prediction failed'' (str_exn e), 500), s)"
    if "model s \<noteq> PyNone"
  proof -
    from that have "\<not> is_None (model s)" by (cases "model s") simp_all
    then show ?thesis by (simp add: predict_def predict_body_def)
  qed
  have inference: "predict (Inr (JObj kvs)) s =
      (Inr (error_body ''Prediction failed'' (str_exn e), 500), s\<lparr>calls := calls s @ [fs]\<rparr>)"
    if m: "model s = Object run" and key: "map_of kvs ''features'' = Some (JList fs)"
      and ok: "length fs = 5" "list_all in_0_1 fs" and raised: "run fs = Inl e"
  proof -
    from m have loaded: "model s \<noteq> PyNone" by simp
    from ok raised show ?thesis
      by (simp add: predict_def predict_body_features [OF loaded key]
          make_prediction_loaded [OF m])
  qed
  from total caught request inference show ?thesis by blast
qed

theorem predict_never_raises_witness:
  "predict (Inr (payload sunny_mild)) unusable =
     (Inr (error_body ''Prediction failed'' ''object has no attribute predict'', 500),
      unusable\<lparr>calls := [sunny_mild]\<rparr>)
   \<and> predict (Inl (Exn ''400 Bad Request'')) unusable =
     (Inr (error_body ''Prediction failed'' ''400 Bad Request'', 500), unusable)"
proof -
  have hyp: "model unusable = Object no_predict
      \<and> map_of [(''features'', JList sunny_mild)] ''features'' = Some (JList sunny_mild)
      \<and> length sunny_mild = 5 \<and> list_all in_0_1 sunny_mild
      \<and> no_predict sunny_mild = Inl (Exn ''object has no attribute predict'')"
    by (simp add: unusable_def sunny_mild_def in_0_1_def)
  have loaded: "model unusable \<noteq> PyNone" by (simp add: unusable_def)
  show ?thesis
    using hyp loaded
      predict_never_raises [of "Inr (payload sunny_mild)" unusable
        "Exn ''object has no attribute predict''" no_predict
        "[(''features'', JList sunny_mild)]" sunny_mild]
      predict_never_raises [of "Inr (payload sunny_mild)" unusable
        "Exn ''400 Bad Request''" no_predict "[]" "[]"]
    by (simp add: payload_def unusable_def)
qed

section \<open>Loading the model\<close>

text \<open>
  C7, as the code has it: \<open>load_model\<close> never raises: it returns a boolean in every
  environment. When the file is missing, or opening or unpickling it raises, it returns
  \<^verbatim>\<open>False\<close> and leaves the state as it was, hence the model absent (\<^verbatim>\<open>None\<close>) when it
  was absent before, as it is at startup. It returns \<^verbatim>\<open>True\<close> exactly when the file
  exists and \<^verbatim>\<open>pickle.load\<close> returned an object; that object is stored in the global as
  it is, without a look at it. So \<^verbatim>\<open>True\<close> comes with a model that is not \<^verbatim>\<open>None\<close>
  exactly when the artifact unpickles to an object other than \<^verbatim>\<open>None\<close>.
\<close>

theorem load_model_reports_failure:
  "(\<exists>b s'. load_model env s = (Inr b, s'))
   \<and> ((\<not> file_exists env \<or> (\<exists>e. unpickle env = Inl e)) \<longrightarrow>
        load_model env s = (Inr False, s))
   \<and> ((\<not> file_exists env \<or> (\<exists>e. unpickle env = Inl e)) \<longrightarrow>
        fst (load_model env initial) = Inr False
        \<and> model (snd (load_model env initial)) = PyNone)
   \<and> (fst (load_model env s) = Inr True) =
        (file_exists env \<and> (\<exists>obj. unpickle env = Inr obj
           \<and> snd (load_model env s) = s\<lparr>model := obj\<rparr>))
   \<and> (fst (load_model env s) = Inr True \<and> model (snd (load_model env s)) \<noteq> PyNone) =
        (file_exists env \<and> (\<exists>run. unpickle env = Inr (Object run)))"
proof -
  have returns: "\<exists>b s'. load_model env s = (Inr b, s')"
    by (auto simp: load_model_def load_model_body_def split: sum.splits)
  have failure: "load_model env s' = (Inr False, s')"
    if "\<not> file_exists env \<or> (\<exists>e. unpickle env = Inl e)" for s'
    using that by (auto simp: load_model_def load_model_body_def)
  have startup: "model initial = PyNone" by (simp add: initial_def)
  have success: "(fst (load_model env s) = Inr True) =
      (file_exists env \<and> (\<exists>obj. unpickle env = Inr obj
         \<and> snd (load_model env s) = s\<lparr>model := obj\<rparr>))"
    by (auto simp: load_model_def load_model_body_def split: sum.splits)
  have stored: "(fst (load_model env s) = Inr True \<and> model (snd (load_model env s)) \<noteq> PyNone) =
      (file_exists env \<and> (\<exists>run. unpickle env = Inr (Object run)))"
  proof (cases "unpickle env")
    case (Inl e)
    then show ?thesis by (simp add: load_model_def load_model_body_def)
  next
    case (Inr obj)
    then show ?thesis by (cases obj) (simp_all add: load_model_def load_model_body_def)
  qed
  from returns failure [of s] failure [of initial] startup success stored
  show ?thesis by simp
qed

theorem load_model_reports_failure_witness:
  "load_model missing_file initial = (Inr False, initial)
   \<and> load_model corrupt_file initial = (Inr False, initial)
   \<and> model (snd (load_model corrupt_file initial)) = PyNone
   \<and> fst (load_model good_file initial) = Inr True
   \<and> snd (load_model good_file initial) = initial\<lparr>model := Object sunny_classifier\<rparr>"
proof -
  have a: "\<not> file_exists missing_file \<or> (\<exists>e. unpickle missing_file = Inl e)"
    by (simp add: missing_file_def)
  have b: "\<not> file_exists corrupt_file \<or> (\<exists>e. unpickle corrupt_file = Inl e)"
    by (simp add: corrupt_file_def)
  have c: "file_exists good_file \<and> unpickle good_file = Inr (Object sunny_classifier)"
    by (simp add: good_file_def)
  have d: "fst (load_model good_file initial) = Inr True"
    by (simp add: load_model_def load_model_body_def good_file_def)
  from a load_model_reports_failure [of missing_file initial]
  have 1: "load_model missing_file initial = (Inr False, initial)" by blast
  from b load_model_reports_failure [of corrupt_file initial]
  have 2: "load_model corrupt_file initial = (Inr False, initial)"
    and 3: "model (snd (load_model corrupt_file initial)) = PyNone" by blast+
  from d load_model_reports_failure [of good_file initial]
  have "\<exists>obj. unpickle good_file = Inr obj
      \<and> snd (load_model good_file initial) = initial\<lparr>model := obj\<rparr>" by blast
  with c have 4: "snd (load_model good_file initial) = initial\<lparr>model := Object sunny_classifier\<rparr>"
    by auto
  from 1 2 3 d 4 show ?thesis by simp
qed

text \<open>
  The claim as written has \<open>load_model\<close> return \<^verbatim>\<open>True\<close> only when a model has been stored,
  and \<^verbatim>\<open>False\<close> on an incompatible artifact. An artifact that unpickles to \<^verbatim>\<open>None\<close> makes
  it return \<^verbatim>\<open>True\<close> with the model still \<^verbatim>\<open>None\<close>, and one that unpickles to an object
  that is no classifier makes it return \<^verbatim>\<open>True\<close> as well.
\<close>

theorem load_model_reports_failure_counterexample:
  "load_model none_file initial = (Inr True, initial)
   \<and> model (snd (load_model none_file initial)) = PyNone
   \<and> fst (load_model not_a_model initial) = Inr True"
  by (simp add: load_model_def load_model_body_def none_file_def not_a_model_def initial_def)

section \<open>The model reference over the life of the process\<close>

lemma health_check_keeps_state: "snd (health_check s) = s"
  by (simp add: health_check_def)

lemma predict_body_keeps_model: "model (snd (predict_body get_json s)) = model s"
  by (simp add: predict_body_def make_prediction_def
      split: sum.splits json.splits pyobj.splits prod.splits)

lemma predict_keeps_model: "model (snd (predict get_json s)) = model s"
proof (cases "predict_body get_json s")
  case (Pair r s')
  with predict_body_keeps_model [of get_json s] show ?thesis
    by (cases r) (simp_all add: predict_def)
qed

lemma handle_keeps_model: "model (handle c s) = model s"
  by (cases c) (simp_all add: health_check_keeps_state predict_keeps_model)

lemma serve_keeps_model: "model (serve cs s) = model s"
  by (induction cs arbitrary: s) (simp_all add: handle_keeps_model)

lemma load_model_writes_whole_object:
  "model (snd (load_model env s)) = model s
   \<or> unpickle env = Inr (model (snd (load_model env s)))"
  by (simp add: load_model_def load_model_body_def split: sum.splits)

text \<open>
  C9, as the code has it: the global \<open>model\<close> is written by one assignment only, in \<open>load_model\<close>, and that
  assignment stores the whole object that \<^verbatim>\<open>pickle.load\<close> returned: \<open>load_model\<close> leaves
  the reference as it was or sets it to that object. \<open>health_check\<close> and \<open>predict\<close> leave
  it unchanged on every call, and so does any sequence of requests. Over the life of the
  process (one \<open>load_model\<close> at startup, then requests) the reference is therefore either
  absent or the complete unpickled object, the same after every request. Whether that
  object can predict is not looked at.
\<close>

theorem model_written_only_by_load_model:
  "model (snd (health_check s)) = model s
   \<and> model (snd (predict get_json s)) = model s
   \<and> model (serve cs s) = model s
   \<and> (model (snd (load_model env s)) = model s
        \<or> unpickle env = Inr (model (snd (load_model env s))))
   \<and> model (main env cs) = model (snd (load_model env initial))
   \<and> (model (main env cs) = PyNone \<or> unpickle env = Inr (model (main env cs)))"
proof -
  have run: "model (main env cs) = model (snd (load_model env initial))"
    by (simp add: main_def serve_keeps_model)
  have "model (snd (load_model env initial)) = PyNone
      \<or> unpickle env = Inr (model (snd (load_model env initial)))"
    using load_model_writes_whole_object [of env initial] by (simp add: initial_def)
  with run have "model (main env cs) = PyNone \<or> unpickle env = Inr (model (main env cs))"
    by simp
  with run show ?thesis
    by (simp add: health_check_keeps_state predict_keeps_model serve_keeps_model
        load_model_writes_whole_object)
qed

theorem model_written_only_by_load_model_witness:
  "model (main good_file [Predict (Inr (payload sunny_mild)), Health, Predict (Inr (JInt 5))]) =
     Object sunny_classifier
   \<and> model (main corrupt_file [Predict (Inr (payload sunny_mild)), Health]) = PyNone"
proof -
  have good: "model (snd (load_model good_file initial)) = Object sunny_classifier"
    by (simp add: load_model_def load_model_body_def good_file_def)
  have corrupt: "model (snd (load_model corrupt_file initial)) = PyNone"
    by (simp add: load_model_def load_model_body_def corrupt_file_def initial_def)
  show ?thesis
    using good corrupt
      model_written_only_by_load_model [of initial "Inr JNull"
        "[Predict (Inr (payload sunny_mild)), Health, Predict (Inr (JInt 5))]" good_file]
      model_written_only_by_load_model [of initial "Inr JNull"
        "[Predict (Inr (payload sunny_mild)), Health]" corrupt_file]
    by simp
qed

text \<open>
  The claim as written has the reference absent or a usable model at all times. With an
  artifact that unpickles to an object that is no classifier, \<open>load_model\<close> returns
  \<^verbatim>\<open>True\<close>, the reference is that object from then on, not \<^verbatim>\<open>None\<close>, and the valid
  payload of the docstring is answered with "Prediction failed" and status 500.
\<close>

theorem model_written_only_by_load_model_counterexample:
  "fst (load_model not_a_model initial) = Inr True
   \<and> main not_a_model [] = unusable
   \<and> model (main not_a_model [Health]) \<noteq> PyNone
   \<and> predict (Inr (payload sunny_mild)) (main not_a_model [Health]) =
       (Inr (error_body ''Prediction failed'' ''object has no attribute predict'', 500),
        unusable\<lparr>calls := [sunny_mild]\<rparr>)"
  by (simp add: main_def load_model_def load_model_body_def not_a_model_def initial_def
      unusable_def health_check_def predict_def predict_body_def make_prediction_def
      payload_def sunny_mild_def in_0_1_def)

end
